theory Spec2Isabelle
  imports Complex_Main
begin

section \<open>Numbers\<close>

text \<open>
  The engine computes with JavaScript numbers. They are modelled as exact reals; a value
  of type \<open>real option\<close> stands for a number that may be non-finite (\<open>NaN\<close>,
  \<open>Infinity\<close>, \<open>-Infinity\<close>), with \<open>None\<close> for every non-finite value. Rounding,
  overflow and underflow of the 64-bit format are outside the model.
\<close>

text \<open>
  \<open>clampNum(v, fallback)\<close>: \<open>Number.isFinite(n) ? n : fallback\<close>, for a finite
  fallback.
\<close>

definition clampNum :: "real option \<Rightarrow> real \<Rightarrow> real" where
  "clampNum v fallback = (case v of Some n \<Rightarrow> n | None \<Rightarrow> fallback)"

text \<open>
  \<open>Math.pow(base, e)\<close> where its result is finite. A negative base with a fractional
  exponent gives \<open>NaN\<close>, a zero base with a negative exponent gives \<open>Infinity\<close>;
  both are \<open>None\<close>. For a positive base and an integral exponent the power is computed
  by repeated multiplication, which is the same number as \<open>base powr e\<close>
  (lemma \<open>Math_pow_pos\<close>).
\<close>

definition int_pow :: "real \<Rightarrow> int \<Rightarrow> real" where
  "int_pow b k = (if 0 \<le> k then b ^ nat k else 1 / b ^ nat (- k))"

definition Math_pow :: "real \<Rightarrow> real \<Rightarrow> real option" where
  "Math_pow b e =
     (if e = of_int \<lfloor>e\<rfloor> then
        (if b = 0 \<and> e < 0 then None else Some (int_pow b \<lfloor>e\<rfloor>))
      else if 0 < b then Some (b powr e)
      else if b = 0 \<and> 0 < e then Some 0
      else None)"

section \<open>Amortization\<close>

text \<open>
  \<open>pmtMonthly(loanAmount, annualRate, amortYears)\<close>. The last branch divides
  \<open>loanAmount * r\<close> by \<open>1 - Math.pow(1 + r, -n)\<close>: when \<open>1 + r = 0\<close> the power
  is \<open>Infinity\<close> and the quotient is zero; when the power is \<open>NaN\<close>, or equal to
  one (a division by zero), the result is non-finite.
\<close>

definition pmtMonthly :: "real \<Rightarrow> real \<Rightarrow> real \<Rightarrow> real option" where
  "pmtMonthly loanAmount annualRate amortYears =
     (let r = annualRate / 12; n = amortYears * 12 in
      if loanAmount \<le> 0 \<or> n \<le> 0 then Some 0
      else if r = 0 then Some (loanAmount / n)
      else if 1 + r = 0 then Some 0
      else (case Math_pow (1 + r) (- n) of
              None \<Rightarrow> None
            | Some q \<Rightarrow> if 1 - q = 0 then None else Some ((loanAmount * r) / (1 - q))))"

text \<open>
  \<open>remainingBalance(loanAmount, annualRate, amortYears, kPayments)\<close>. A non-finite
  payment or power makes the result non-finite.
\<close>

definition remainingBalance :: "real \<Rightarrow> real \<Rightarrow> real \<Rightarrow> real \<Rightarrow> real option" where
  "remainingBalance loanAmount annualRate amortYears kPayments =
     (let r = annualRate / 12; n = amortYears * 12 in
      if loanAmount \<le> 0 \<or> n \<le> 0 then Some 0
      else (case pmtMonthly loanAmount annualRate amortYears of
              None \<Rightarrow> None
            | Some pmt \<Rightarrow>
                if r = 0 then Some (loanAmount * (1 - kPayments / n))
                else (case Math_pow (1 + r) kPayments of
                        None \<Rightarrow> None
                      | Some p \<Rightarrow> Some (loanAmount * p - pmt * ((p - 1) / r)))))"

section \<open>Return metrics\<close>

text \<open>
  \<open>npv(rate, cashflows)\<close>. The rate and every entry pass through
  \<open>clampNum(_, NaN)\<close> followed by a finiteness test, so a non-finite rate or entry
  returns \<open>NaN\<close>. The loop adds \<open>cf / Math.pow(1 + r, t)\<close> with \<open>t\<close> a
  non-negative integer; a zero divisor gives a non-finite term, after which the running total stays
  non-finite.
\<close>

fun npv_loop :: "real \<Rightarrow> real option list \<Rightarrow> nat \<Rightarrow> real \<Rightarrow> real option" where
  "npv_loop r [] t tot = Some tot"
| "npv_loop r (cf0 # rest) t tot =
     (case cf0 of
        None \<Rightarrow> None
      | Some cf \<Rightarrow>
          if (1 + r) ^ t = 0 then None
          else npv_loop r rest (Suc t) (tot + cf / (1 + r) ^ t))"

definition npv :: "real option \<Rightarrow> real option list \<Rightarrow> real option" where
  "npv rate cashflows = (case rate of None \<Rightarrow> None | Some r \<Rightarrow> npv_loop r cashflows 0 0)"

text \<open>
  \<open>irr(cashflows)\<close>. The first loop returns \<open>null\<close> at a non-finite entry and
  otherwise records whether a negative and a positive entry were seen.
\<close>

fun sign_scan :: "real option list \<Rightarrow> bool \<Rightarrow> bool \<Rightarrow> (bool \<times> bool) option" where
  "sign_scan [] hasNeg hasPos = Some (hasNeg, hasPos)"
| "sign_scan (cf0 # rest) hasNeg hasPos =
     (case cf0 of
        None \<Rightarrow> None
      | Some cf \<Rightarrow> sign_scan rest (hasNeg \<or> cf < 0) (hasPos \<or> cf > 0))"

text \<open>
  The bound-doubling loop \<open>while (fLo * fHi > 0 && tries < 20)\<close>, as a function of the
  number of tries that remain; it returns the final \<open>hi\<close> and \<open>fHi\<close>. Every rate
  that \<open>irr\<close> passes to \<open>npv\<close> is above \<open>-1\<close>, where the value is finite
  (lemma \<open>npv_finite\<close>), so the branches for a non-finite value are never taken.
\<close>

fun widen :: "real option list \<Rightarrow> real \<Rightarrow> nat \<Rightarrow> real \<Rightarrow> real \<Rightarrow> (real \<times> real) option" where
  "widen cashflows fLo 0 hi fHi = Some (hi, fHi)"
| "widen cashflows fLo (Suc left) hi fHi =
     (if fLo * fHi > 0 then
        (case npv (Some (hi * 2)) cashflows of
           None \<Rightarrow> None
         | Some f \<Rightarrow> widen cashflows fLo left (hi * 2) f)
      else Some (hi, fHi))"

text \<open>
  The bisection loop \<open>for (let i = 0; i < 140; i++)\<close>, as a function of the number of
  iterations that remain. \<open>fLo\<close> is the value at the first lower bound and is not
  updated when \<open>lo\<close> moves.
\<close>

fun bisect :: "real option list \<Rightarrow> real \<Rightarrow> nat \<Rightarrow> real \<Rightarrow> real \<Rightarrow> real option" where
  "bisect cashflows fLo 0 lo hi = Some ((lo + hi) / 2)"
| "bisect cashflows fLo (Suc left) lo hi =
     (let mid = (lo + hi) / 2 in
      case npv (Some mid) cashflows of
        None \<Rightarrow> None
      | Some fMid \<Rightarrow>
          if \<bar>fMid\<bar> < 1 / 10 ^ 7 then Some mid
          else if fLo * fMid \<le> 0 then bisect cashflows fLo left lo mid
          else bisect cashflows fLo left mid hi)"

definition irr :: "real option list \<Rightarrow> real option" where
  "irr cashflows =
     (case sign_scan cashflows False False of
        None \<Rightarrow> None
      | Some (hasNeg, hasPos) \<Rightarrow>
          if \<not> hasNeg \<or> \<not> hasPos then None
          else
            (case (npv (Some (- 0.9999)) cashflows, npv (Some 5) cashflows) of
               (Some fLo, Some fHi0) \<Rightarrow>
                 (case widen cashflows fLo 20 5 fHi0 of
                    None \<Rightarrow> None
                  | Some (hi, fHi) \<Rightarrow>
                      if fLo * fHi > 0 then None
                      else bisect cashflows fLo 140 (- 0.9999) hi)
             | _ \<Rightarrow> None))"


section \<open>Recommendation classifier\<close>

datatype Tone = good | warn | bad | neutral

record Note =
  note_tone :: Tone
  title :: string

record Recommendation =
  headline :: string
  tone :: Tone
  rec_notes :: "Note list"

definition BENCH_dscr :: real where "BENCH_dscr = 1.25"
definition BENCH_coc :: real where "BENCH_coc = 0.08"
definition BENCH_irr :: real where "BENCH_irr = 0.12"

text \<open>
  The three notes of \<open>buildRecommendation\<close>, with tone and title; the note's text, a
  locale-formatted rendering of the number, is left out. \<open>null\<close> is \<open>None\<close>.
\<close>

definition dscr_note :: "real option \<Rightarrow> Note" where
  "dscr_note d =
     (case d of
        None \<Rightarrow> \<lparr>note_tone = bad, title = ''DSCR missing''\<rparr>
      | Some v \<Rightarrow>
          if v \<ge> BENCH_dscr then \<lparr>note_tone = good, title = ''Healthy DSCR''\<rparr>
          else if v \<ge> 1.05 then \<lparr>note_tone = warn, title = ''Tight DSCR''\<rparr>
          else \<lparr>note_tone = bad, title = ''Weak DSCR''\<rparr>)"

definition coc_note :: "real option \<Rightarrow> Note" where
  "coc_note c =
     (case c of
        None \<Rightarrow> \<lparr>note_tone = bad, title = ''CoC missing''\<rparr>
      | Some v \<Rightarrow>
          if v \<ge> BENCH_coc then \<lparr>note_tone = good, title = ''Competitive cash yield''\<rparr>
          else if v \<ge> 0.04 then \<lparr>note_tone = warn, title = ''Modest cash yield''\<rparr>
          else \<lparr>note_tone = bad, title = ''Low cash yield''\<rparr>)"

definition irr_note :: "real option \<Rightarrow> Note" where
  "irr_note i =
     (case i of
        None \<Rightarrow> \<lparr>note_tone = bad, title = ''IRR missing''\<rparr>
      | Some v \<Rightarrow>
          if v \<ge> BENCH_irr then \<lparr>note_tone = good, title = ''Strong IRR''\<rparr>
          else if v \<ge> 0.08 then \<lparr>note_tone = warn, title = ''OK IRR''\<rparr>
          else \<lparr>note_tone = bad, title = ''Weak IRR''\<rparr>)"

text \<open>
  The default headline contains an em dash (U+2014); it is written here as its three
  UTF-8 bytes.
\<close>

definition headline_borderline :: string where
  "headline_borderline =
     ''Borderline '' @ [CHR 0xE2, CHR 0x80, CHR 0x94] @ '' needs diligence''"

definition buildRecommendation :: "real option \<Rightarrow> real option \<Rightarrow> real option \<Rightarrow> Recommendation" where
  "buildRecommendation dscr coc irrLevered =
     (let ns = [dscr_note dscr, coc_note coc, irr_note irrLevered];
          goodN = length (filter (\<lambda>n. note_tone n = good) ns);
          badN = length (filter (\<lambda>n. note_tone n = bad) ns)
      in if badN \<ge> 2 then
           \<lparr>headline = ''Likely not worth it (as modeled)'', tone = bad, rec_notes = ns\<rparr>
         else if goodN \<ge> 2 \<and> badN = 0 then
           \<lparr>headline = ''Likely worth pursuing'', tone = good, rec_notes = ns\<rparr>
         else \<lparr>headline = headline_borderline, tone = warn, rec_notes = ns\<rparr>)"

section \<open>Cash-flow projector\<close>

datatype AssetClass = Multifamily | Office | Industrial | RetailCommercial | SingleFamilyHome
datatype OpexMode = PercentOfRevenue | LineItems | PerUnitYear | Hybrid
datatype CapexMode = PSFYear | CapexPerUnitYear
datatype RecoveryMode = RecoveryNone | PctOfOpEx | FlatAnnual

text \<open>
  The argument object of \<open>computeModel\<close>. Every number is finite, as the caller's
  \<open>baseArgs\<close> builds it; the hold period \<open>saleYear\<close> is a natural number.
\<close>

record ModelArgs =
  assetClass :: AssetClass
  squareFootage :: real
  purchasePrice :: real
  dueDiligenceCosts :: real
  closingCostPct :: real
  saleYear :: nat
  rentGrowth :: real
  otherIncomeGrowth :: real
  vacancyRate :: real
  annualRevenue :: real
  otherIncomeAnnual :: real
  rentRollGPR :: real
  rentRollUnits :: real
  opexMode :: OpexMode
  opexPctOfRev :: real
  opexPerUnitYear :: real
  mgmtFeePct :: real
  reservesPerUnitYear :: real
  opexItemsYear1 :: real
  expenseInflation :: real
  recoveryMode :: RecoveryMode
  recoveryPctOfOpex :: real
  recoveryFlatAnnual :: real
  capexMode :: CapexMode
  capexPsfYear1 :: real
  capexPerUnitYear1 :: real
  capexGrowth :: real
  exitCapRate :: real
  costOfSalePct :: real
  ltv :: real
  interestRate :: real
  amortYears :: real
  discountRate :: real

text \<open>The sanitised locals at the head of \<open>computeModel\<close>.\<close>

definition rentG :: "ModelArgs \<Rightarrow> real" where
  "rentG a = clampNum (Some (rentGrowth a)) 0"

definition otherG :: "ModelArgs \<Rightarrow> real" where
  "otherG a = clampNum (Some (otherIncomeGrowth a)) (rentG a)"

definition vacSafe :: "ModelArgs \<Rightarrow> real" where
  "vacSafe a = max 0 (clampNum (Some (vacancyRate a)) 0)"

definition exitCapSafe :: "ModelArgs \<Rightarrow> real" where
  "exitCapSafe a = max (1 / 10 ^ 9) (clampNum (Some (exitCapRate a)) 0.065)"

definition saleCostSafe :: "ModelArgs \<Rightarrow> real" where
  "saleCostSafe a = max 0 (clampNum (Some (costOfSalePct a)) 0)"

definition discSafe :: "ModelArgs \<Rightarrow> real" where
  "discSafe a = max 0 (clampNum (Some (discountRate a)) 0.12)"

definition expG :: "ModelArgs \<Rightarrow> real" where
  "expG a = max 0 (clampNum (Some (expenseInflation a)) 0)"

definition baseRent1 :: "ModelArgs \<Rightarrow> real" where
  "baseRent1 a = max 0 (if assetClass a = Multifamily then rentRollGPR a else annualRevenue a)"

definition baseOther1 :: "ModelArgs \<Rightarrow> real" where
  "baseOther1 a = max 0 (otherIncomeAnnual a)"

text \<open>Debt: loan proceeds, annual debt service and the year-by-year payoff loop.\<close>

definition loanProceeds_of :: "ModelArgs \<Rightarrow> real" where
  "loanProceeds_of a = max 0 (purchasePrice a) * max 0 (min 1 (clampNum (Some (ltv a)) 0))"

text \<open>
  The payment is finite because the rate passed is \<open>max 0 r\<close>
  (lemma \<open>pmtMonthly_defined\<close>).
\<close>

definition debtPmtAnnual_of :: "ModelArgs \<Rightarrow> real" where
  "debtPmtAnnual_of a =
     the (pmtMonthly (loanProceeds_of a) (max 0 (interestRate a)) (max 1 (amortYears a))) * 12"

text \<open>
  One pass of the loop \<open>for (t = 1; t <= N; t++)\<close> over \<open>loanBal\<close>; \<open>payoff\<close>
  is the balance after the last pass, and the loan proceeds when the loop does not run.
\<close>

fun loanBal_loop :: "real \<Rightarrow> real \<Rightarrow> nat \<Rightarrow> real \<Rightarrow> real" where
  "loanBal_loop debtPmt r 0 loanBal = loanBal"
| "loanBal_loop debtPmt r (Suc left) loanBal =
     (let interest = loanBal * r;
          principal = max 0 (debtPmt - interest)
      in loanBal_loop debtPmt r left (max 0 (loanBal - principal)))"

definition payoff_of :: "ModelArgs \<Rightarrow> real" where
  "payoff_of a = loanBal_loop (debtPmtAnnual_of a) (interestRate a) (saleYear a) (loanProceeds_of a)"

definition acquisitionCF :: "ModelArgs \<Rightarrow> real" where
  "acquisitionCF a =
     - (max 0 (purchasePrice a) + max 0 (dueDiligenceCosts a)
        + max 0 (purchasePrice a) * max 0 (closingCostPct a))"

text \<open>
  The year series. Each \<open>_at\<close> function is the value the main loop stores at index
  \<open>y\<close>, for \<open>y = 1 .. N + 1\<close>; \<open>Math.pow\<close> has the exponent \<open>y - 1\<close>, a
  non-negative integer.
\<close>

definition units :: "ModelArgs \<Rightarrow> real" where
  "units a = (if assetClass a = Multifamily then max 0 (rentRollUnits a) else 1)"

definition rentRev_at :: "ModelArgs \<Rightarrow> nat \<Rightarrow> real" where
  "rentRev_at a y = baseRent1 a * (1 + rentG a) ^ (y - 1)"

definition otherRev_at :: "ModelArgs \<Rightarrow> nat \<Rightarrow> real" where
  "otherRev_at a y = baseOther1 a * (1 + otherG a) ^ (y - 1)"

definition revenue_at :: "ModelArgs \<Rightarrow> nat \<Rightarrow> real" where
  "revenue_at a y = rentRev_at a y + otherRev_at a y"

definition baseOpex_at :: "ModelArgs \<Rightarrow> nat \<Rightarrow> real" where
  "baseOpex_at a y =
     (let lineItemsY = max 0 (opexItemsYear1 a) * (1 + expG a) ^ (y - 1);
          perUnitY = (max 0 (opexPerUnitYear a) * units a) * (1 + expG a) ^ (y - 1)
      in case opexMode a of
           PercentOfRevenue \<Rightarrow> max 0 (opexPctOfRev a) * revenue_at a y
         | LineItems \<Rightarrow> lineItemsY
         | PerUnitYear \<Rightarrow> perUnitY
         | Hybrid \<Rightarrow> lineItemsY + perUnitY)"

definition opexAbs_at :: "ModelArgs \<Rightarrow> nat \<Rightarrow> real" where
  "opexAbs_at a y =
     (let mgmt = max 0 (mgmtFeePct a) * revenue_at a y;
          reserves = (max 0 (reservesPerUnitYear a) * units a) * (1 + expG a) ^ (y - 1)
      in max 0 (baseOpex_at a y + mgmt + reserves))"

definition recoveries_at :: "ModelArgs \<Rightarrow> nat \<Rightarrow> real" where
  "recoveries_at a y =
     (case recoveryMode a of
        RecoveryNone \<Rightarrow> 0
      | PctOfOpEx \<Rightarrow> max 0 (recoveryPctOfOpex a) * opexAbs_at a y
      | FlatAnnual \<Rightarrow> max 0 (recoveryFlatAnnual a) * (1 + rentG a) ^ (y - 1))"

definition vacancyLoss_at :: "ModelArgs \<Rightarrow> nat \<Rightarrow> real" where
  "vacancyLoss_at a y = - ((revenue_at a y + recoveries_at a y) * vacSafe a)"

definition egr_at :: "ModelArgs \<Rightarrow> nat \<Rightarrow> real" where
  "egr_at a y = revenue_at a y + recoveries_at a y + vacancyLoss_at a y"

definition noi_at :: "ModelArgs \<Rightarrow> nat \<Rightarrow> real" where
  "noi_at a y = egr_at a y - opexAbs_at a y"

definition capexAbs_at :: "ModelArgs \<Rightarrow> nat \<Rightarrow> real" where
  "capexAbs_at a y =
     (if capexMode a = PSFYear then
        (max 0 (capexPsfYear1 a) * max 0 (squareFootage a)) * (1 + max 0 (capexGrowth a)) ^ (y - 1)
      else (max 0 (capexPerUnitYear1 a) * units a) * (1 + max 0 (capexGrowth a)) ^ (y - 1))"

text \<open>
  An array \<open>new Array(N + 2).fill(0)\<close> whose indices \<open>1 .. N + 1\<close> the main loop
  has set; index 0 keeps the fill value.
\<close>

definition year_array :: "nat \<Rightarrow> (nat \<Rightarrow> real) \<Rightarrow> real list" where
  "year_array N f = 0 # map f [1 ..< N + 2]"

text \<open>Exit valuation.\<close>

definition salePrice_of :: "ModelArgs \<Rightarrow> real" where
  "salePrice_of a = noi_at a (saleYear a + 1) / exitCapSafe a"

definition saleCosts_of :: "ModelArgs \<Rightarrow> real" where
  "saleCosts_of a = salePrice_of a * saleCostSafe a"

definition saleNetBeforeDebt_of :: "ModelArgs \<Rightarrow> real" where
  "saleNetBeforeDebt_of a = salePrice_of a - saleCosts_of a"

text \<open>
  \<open>unleveredCF\<close>, of length \<open>N + 1\<close>: index 0 is the acquisition outlay, indices
  \<open>1 .. N\<close> are \<open>noi[y] - capexAbs[y]\<close>, and then
  \<open>unleveredCF[N] += saleNetBeforeDebt\<close>.
\<close>

definition unleveredCF_of :: "ModelArgs \<Rightarrow> real list" where
  "unleveredCF_of a =
     (let N = saleYear a;
          cf = acquisitionCF a # map (\<lambda>y. noi_at a y - capexAbs_at a y) [1 ..< N + 1]
      in cf[N := cf ! N + saleNetBeforeDebt_of a])"

text \<open>
  \<open>leveredCF\<close>, of length \<open>N + 1\<close>: index 0 is \<open>unleveredCF[0] + loanProceeds\<close>,
  read after the sale proceeds were added to \<open>unleveredCF[N]\<close>; the loop over
  \<open>y = 1 .. N\<close> subtracts the debt service and, at \<open>y = N\<close>, adds
  \<open>saleNetBeforeDebt - payoff\<close>, with \<open>payoff\<close> the result of the year-by-year
  loop.
\<close>

definition leveredCF_of :: "ModelArgs \<Rightarrow> real list" where
  "leveredCF_of a =
     (let N = saleYear a; debtSvc = debtPmtAnnual_of a in
      (unleveredCF_of a ! 0 + loanProceeds_of a)
      # map (\<lambda>y. if y = N then
                    ((noi_at a y - capexAbs_at a y) - debtSvc)
                    + (saleNetBeforeDebt_of a - payoff_of a)
                  else (noi_at a y - capexAbs_at a y) - debtSvc)
            [1 ..< N + 1])"

text \<open>
  \<open>payoffAtExit\<close>: the closed-form balance that \<open>computeModel\<close> computes before
  the levered loop, and that no later statement reads.
\<close>

definition payoffAtExit :: "ModelArgs \<Rightarrow> real option" where
  "payoffAtExit a =
     map_option (max 0)
       (remainingBalance (loanProceeds_of a) (max 0 (interestRate a)) (max 1 (amortYears a))
          (real (saleYear a)))"

record Model =
  N :: nat
  capRate :: "real option"
  dscr :: "real option"
  coc :: "real option"
  equityOut :: real
  rentRev :: "real list"
  otherRev :: "real list"
  revenue :: "real list"
  recoveries :: "real list"
  vacancyLoss :: "real list"
  egr :: "real list"
  opexAbs :: "real list"
  noi :: "real list"
  capexAbs :: "real list"
  salePrice :: real
  saleCosts :: real
  saleNetBeforeDebt :: real
  loanProceeds :: real
  debtPmtAnnual :: real
  payoff :: real
  unleveredCF :: "real list"
  leveredCF :: "real list"
  uIRR :: "real option"
  lIRR :: "real option"
  uNPV :: "real option"
  lNPV :: "real option"
  noi1 :: real
  recommendation :: Recommendation

text \<open>
  \<open>coc\<close> reads \<open>leveredCF[1]\<close>, which does not exist when \<open>N = 0\<close>; the
  quotient is then \<open>NaN\<close>, here \<open>None\<close>.
\<close>

definition coc_of :: "ModelArgs \<Rightarrow> real option" where
  "coc_of a =
     (let equityOut = - (leveredCF_of a ! 0) in
      if equityOut > 0 then
        (if 1 < length (leveredCF_of a) then Some (leveredCF_of a ! 1 / equityOut) else None)
      else None)"

definition dscr_of :: "ModelArgs \<Rightarrow> real option" where
  "dscr_of a =
     (if debtPmtAnnual_of a > 0 then Some (noi_at a 1 / debtPmtAnnual_of a) else None)"

definition computeModel :: "ModelArgs \<Rightarrow> Model" where
  "computeModel a =
     (let n = saleYear a;
          uIRR' = irr (map Some (unleveredCF_of a));
          lIRR' = irr (map Some (leveredCF_of a));
          uNPV' = npv (Some (discSafe a)) (map Some (unleveredCF_of a));
          lNPV' = npv (Some (discSafe a)) (map Some (leveredCF_of a))
      in \<lparr>N = n,
          capRate = (if purchasePrice a > 0 then Some (noi_at a 1 / purchasePrice a) else None),
          dscr = dscr_of a,
          coc = coc_of a,
          equityOut = - (leveredCF_of a ! 0),
          rentRev = year_array n (rentRev_at a),
          otherRev = year_array n (otherRev_at a),
          revenue = year_array n (revenue_at a),
          recoveries = year_array n (recoveries_at a),
          vacancyLoss = year_array n (vacancyLoss_at a),
          egr = year_array n (egr_at a),
          opexAbs = year_array n (opexAbs_at a),
          noi = year_array n (noi_at a),
          capexAbs = year_array n (capexAbs_at a),
          salePrice = salePrice_of a,
          saleCosts = saleCosts_of a,
          saleNetBeforeDebt = saleNetBeforeDebt_of a,
          loanProceeds = loanProceeds_of a,
          debtPmtAnnual = debtPmtAnnual_of a,
          payoff = payoff_of a,
          unleveredCF = unleveredCF_of a,
          leveredCF = leveredCF_of a,
          uIRR = uIRR',
          lIRR = lIRR',
          uNPV = uNPV',
          lNPV = lNPV',
          noi1 = noi_at a 1,
          recommendation = buildRecommendation (dscr_of a) (coc_of a) lIRR'\<rparr>)"


section \<open>Sensitivity and tornado engines\<close>









record TornadoRow =
  row_name :: string
  lowV :: "real option"
  highV :: "real option"
  dLow :: "real option"
  dHigh :: "real option"
  swing :: real

text \<open>
  A signed delta \<open>baseV != null && v != null ? v - baseV : null\<close>.
\<close>

definition delta :: "real option \<Rightarrow> real option \<Rightarrow> real option" where
  "delta baseV v =
     (case (baseV, v) of (Some b, Some x) \<Rightarrow> Some (x - b) | _ \<Rightarrow> None)"


record Tornado =
  baseV :: "real option"
  rows :: "TornadoRow list"
  maxSwing :: real


section \<open>The headline rule in the specification's words\<close>

text \<open>
  The tiering of one metric as the specification words it: undefined is bad, at or above
  the benchmark is good, at or above the floor of the intermediate band is a warning,
  anything else is bad.
\<close>

definition metric_tone :: "real \<Rightarrow> real \<Rightarrow> real option \<Rightarrow> Tone" where
  "metric_tone benchmark band v =
     (case v of
        None \<Rightarrow> bad
      | Some x \<Rightarrow> if benchmark \<le> x then good else if band \<le> x then warn else bad)"

text \<open>
  The aggregate rule: at least 2 bad; else at least 2 good and none bad; else borderline.
  The first headline is the source's string.
\<close>

definition spec_headline :: "Tone list \<Rightarrow> string" where
  "spec_headline ts =
     (if 2 \<le> count_list ts bad then ''Likely not worth it (as modeled)''
      else if 2 \<le> count_list ts good \<and> count_list ts bad = 0 then ''Likely worth pursuing''
      else headline_borderline)"

section \<open>A concrete deal\<close>

text \<open>
  The scenario of the specification: an office building bought for 1,000,000, held one
  year, flat rent 100,000 a year, no growth, vacancy, expenses or capital expenditure,
  exit cap rate 10 per cent, no cost of sale and no debt. The evaluations below start from
  it.
\<close>

definition deal :: ModelArgs where
  "deal =
     \<lparr>assetClass = Office, squareFootage = 0, purchasePrice = 1000000,
      dueDiligenceCosts = 0, closingCostPct = 0, saleYear = 1, rentGrowth = 0,
      otherIncomeGrowth = 0, vacancyRate = 0, annualRevenue = 100000, otherIncomeAnnual = 0,
      rentRollGPR = 0, rentRollUnits = 0, opexMode = PercentOfRevenue, opexPctOfRev = 0,
      opexPerUnitYear = 0, mgmtFeePct = 0, reservesPerUnitYear = 0, opexItemsYear1 = 0,
      expenseInflation = 0, recoveryMode = RecoveryNone, recoveryPctOfOpex = 0,
      recoveryFlatAnnual = 0, capexMode = PSFYear, capexPsfYear1 = 0, capexPerUnitYear1 = 0,
      capexGrowth = 0, exitCapRate = 0.1, costOfSalePct = 0, ltv = 0, interestRate = 0.12,
      amortYears = 1, discountRate = 0.1\<rparr>"

text \<open>
  The same deal financed with a loan of half the price, at 12 per cent a year, amortized
  over one year.
\<close>

definition deal_levered :: ModelArgs where
  "deal_levered = deal\<lparr>ltv := 0.5\<rparr>"

section \<open>Properties of the amortization module\<close>

lemma int_pow_powr: "0 < b \<Longrightarrow> int_pow b k = b powr (of_int k)"
  by (simp add: int_pow_def powr_real_of_int field_simps)

lemma Math_pow_pos: "0 < b \<Longrightarrow> Math_pow b e = Some (b powr e)"
  unfolding Math_pow_def using int_pow_powr [of b "\<lfloor>e\<rfloor>"] by auto

lemma pmtMonthly_pos_rate:
  assumes "0 < L" "0 < a" "0 < y"
  shows "pmtMonthly L a y = Some ((L * (a / 12)) / (1 - (1 + a / 12) powr (- (y * 12))))"
proof -
  have b: "0 < 1 + a / 12" using assms by simp
  have "(1 + a / 12) powr (- (y * 12)) \<noteq> 1"
    using assms by simp
  then show ?thesis
    using assms b by (simp add: pmtMonthly_def Let_def Math_pow_pos)
qed

lemma pmtMonthly_defined: "0 \<le> a \<Longrightarrow> \<exists>p. pmtMonthly L a y = Some p"
proof -
  assume a: "0 \<le> a"
  then have b: "0 < 1 + a / 12" by simp
  show ?thesis
  proof (cases "L \<le> 0 \<or> y * 12 \<le> 0 \<or> a = 0")
    case True
    then show ?thesis by (auto simp: pmtMonthly_def Let_def)
  next
    case False
    then have "0 < L" "0 < a" "0 < y" using a by auto
    then show ?thesis using pmtMonthly_pos_rate by blast
  qed
qed

text \<open>
  C6. \<open>pmtMonthly\<close> (the spec's \<open>monthlyPayment\<close>) returns 0 whenever the loan amount
  is at most 0 or \<open>amortYears * 12\<close> is at most 0, and returns
  \<open>loanAmount / (amortYears * 12)\<close> whenever the annual rate is 0 and both are
  positive.
\<close>

theorem pmtMonthly_zero_cases:
  "(L \<le> 0 \<or> y * 12 \<le> 0 \<longrightarrow> pmtMonthly L a y = Some 0) \<and>
   (0 < L \<and> 0 < y * 12 \<longrightarrow> pmtMonthly L 0 y = Some (L / (y * 12)) \<and>
      pmtMonthly L 0 y = Some (L / (12 * y)))"
  by (auto simp: pmtMonthly_def Let_def mult.commute)

theorem pmtMonthly_zero_cases_witness:
  "pmtMonthly (-5) (6 / 100) 30 = Some 0 \<and> pmtMonthly 500000 (6 / 100) 0 = Some 0 \<and>
   pmtMonthly 360000 0 30 = Some 1000"
  using pmtMonthly_zero_cases [of "-5" 30 "6 / 100"]
    pmtMonthly_zero_cases [of 500000 0 "6 / 100"]
    pmtMonthly_zero_cases [of 360000 30 0]
  by simp

text \<open>
  C7. For every loan amount \<open>L > 0\<close>, rate \<open>r \<ge> 0\<close> and amortization term
  \<open>y \<ge> 1\<close>, the remaining balance after the full schedule of \<open>12 y\<close> monthly payments
  is exactly 0 in exact arithmetic.
\<close>

theorem remainingBalance_full_term:
  assumes "0 < L" "0 \<le> r" "1 \<le> y"
  shows "remainingBalance L r y (12 * y) = Some 0"
proof (cases "r = 0")
  case True
  with assms show ?thesis
    by (simp add: remainingBalance_def pmtMonthly_def Let_def)
next
  case False
  with assms have rp: "0 < r" and yp: "0 < y" by auto
  define m where "m = r / 12"
  define p where "p = (1 + m) powr (12 * y)"
  have mp: "0 < m" using rp by (simp add: m_def)
  have b: "0 < 1 + m" using mp by simp
  have p1: "1 < p"
    unfolding p_def using mp yp by (intro gr_one_powr) simp_all
  have q: "(1 + m) powr (- (y * 12)) = 1 / p"
    by (simp add: p_def powr_minus mult.commute inverse_eq_divide)
  have pm: "pmtMonthly L r y = Some ((L * m) / (1 - 1 / p))"
    using pmtMonthly_pos_rate [OF assms(1) rp yp] q by (simp add: m_def)
  have pw: "Math_pow (1 + m) (12 * y) = Some p"
    using Math_pow_pos [OF b] by (simp add: p_def)
  have alg: "L * p - (L * m) / (1 - 1 / p) * ((p - 1) / m) = 0"
    using mp p1 by (simp add: field_simps)
  show ?thesis
    using assms rp yp mp pm pw alg
    by (simp add: remainingBalance_def Let_def m_def [symmetric])
qed

theorem remainingBalance_full_term_witness:
  "remainingBalance 500000 (6 / 100) 30 (12 * 30) = Some 0"
  using remainingBalance_full_term [of 500000 "6 / 100" 30] by simp


section \<open>Properties of the cash-flow projector\<close>

lemma loanProceeds_of_bounds:
  "0 \<le> loanProceeds_of a \<and> loanProceeds_of a \<le> max 0 (purchasePrice a)"
proof -
  define f where "f = max 0 (min 1 (clampNum (Some (ltv a)) 0))"
  have f: "0 \<le> f" "f \<le> 1" by (simp_all add: f_def)
  have p: "0 \<le> max 0 (purchasePrice a)" by simp
  have "max 0 (purchasePrice a) * f \<le> max 0 (purchasePrice a) * 1"
    using f p by (intro mult_left_mono) simp_all
  moreover have "0 \<le> max 0 (purchasePrice a) * f" using f p by (intro mult_nonneg_nonneg)
  ultimately show ?thesis by (simp add: loanProceeds_of_def f_def)
qed

text \<open>
  C10. For every input record the loan proceeds of \<open>computeModel\<close> lie between 0 and
  \<open>max 0 purchasePrice\<close>: the loan-to-value ratio is clamped into \<open>[0, 1]\<close> before it
  multiplies the purchase price clamped at 0, whatever ratio is supplied.
\<close>

theorem loanProceeds_bounds:
  "0 \<le> loanProceeds (computeModel a) \<and>
   loanProceeds (computeModel a) \<le> max 0 (purchasePrice a)"
  using loanProceeds_of_bounds [of a] by (simp add: computeModel_def Let_def)

theorem loanProceeds_bounds_witness:
  "0 \<le> loanProceeds (computeModel (deal\<lparr>ltv := 150, purchasePrice := 200\<rparr>)) \<and>
   loanProceeds (computeModel (deal\<lparr>ltv := 150, purchasePrice := 200\<rparr>)) \<le> 200"
  using loanProceeds_bounds [of "deal\<lparr>ltv := 150, purchasePrice := 200\<rparr>"]
  by simp

lemma loanBal_loop_zero: "loanBal_loop 0 r n 0 = 0"
  by (induction n) (simp_all add: Let_def)

lemma no_debt:
  assumes "ltv a = 0"
  shows "loanProceeds_of a = 0" "debtPmtAnnual_of a = 0" "payoff_of a = 0"
proof -
  show l: "loanProceeds_of a = 0" using assms by (simp add: loanProceeds_of_def clampNum_def)
  show d: "debtPmtAnnual_of a = 0" by (simp add: debtPmtAnnual_of_def l pmtMonthly_def Let_def)
  show "payoff_of a = 0" by (simp add: payoff_of_def l d loanBal_loop_zero)
qed

lemma length_unleveredCF [simp]: "length (unleveredCF_of a) = saleYear a + 1"
  unfolding unleveredCF_of_def Let_def length_list_update by simp

lemma length_leveredCF [simp]: "length (leveredCF_of a) = saleYear a + 1"
  by (simp add: leveredCF_of_def Let_def)

lemma unleveredCF_nth:
  assumes "i \<le> saleYear a"
  shows "unleveredCF_of a ! i =
    (if i = 0 then acquisitionCF a else noi_at a i - capexAbs_at a i)
    + (if i = saleYear a then saleNetBeforeDebt_of a else 0)"
proof -
  define cf where "cf = acquisitionCF a # map (\<lambda>y. noi_at a y - capexAbs_at a y) [1 ..< saleYear a + 1]"
  have len: "length cf = saleYear a + 1" by (simp add: cf_def)
  have nth: "cf ! i = (if i = 0 then acquisitionCF a else noi_at a i - capexAbs_at a i)"
    using assms by (cases i) (simp_all add: cf_def del: upt_Suc)
  have u: "unleveredCF_of a = cf[saleYear a := cf ! saleYear a + saleNetBeforeDebt_of a]"
    unfolding unleveredCF_of_def Let_def cf_def ..
  show ?thesis
  proof (cases "i = saleYear a")
    case True
    then show ?thesis using len nth by (simp add: u)
  next
    case False
    then show ?thesis using len nth by (simp add: u)
  qed
qed

lemma leveredCF_nth:
  assumes "i \<le> saleYear a"
  shows "leveredCF_of a ! i =
    (if i = 0 then unleveredCF_of a ! 0 + loanProceeds_of a
     else if i = saleYear a then
       ((noi_at a i - capexAbs_at a i) - debtPmtAnnual_of a)
       + (saleNetBeforeDebt_of a - payoff_of a)
     else (noi_at a i - capexAbs_at a i) - debtPmtAnnual_of a)"
  using assms by (cases i) (simp_all add: leveredCF_of_def Let_def del: upt_Suc)

lemma no_debt_cashflows:
  assumes "ltv a = 0"
  shows "leveredCF_of a = unleveredCF_of a"
proof (rule nth_equalityI)
  show "length (leveredCF_of a) = length (unleveredCF_of a)" by simp
next
  fix i assume "i < length (leveredCF_of a)"
  then have i: "i \<le> saleYear a" by simp
  show "leveredCF_of a ! i = unleveredCF_of a ! i"
    using i by (simp add: leveredCF_nth unleveredCF_nth no_debt [OF assms])
qed

text \<open>
  C9. For every input record with a loan-to-value ratio of 0, the loan proceeds, the
  annual debt service and the exit payoff are 0, the levered cash-flow vector equals the
  unlevered one at every index \<open>0 .. N\<close>, and so the levered IRR and NPV equal the
  unlevered IRR and NPV.
\<close>

theorem zero_ltv_levered_is_unlevered:
  assumes "ltv a = 0"
  shows "loanProceeds (computeModel a) = 0 \<and> debtPmtAnnual (computeModel a) = 0 \<and>
         payoff (computeModel a) = 0 \<and>
         leveredCF (computeModel a) = unleveredCF (computeModel a) \<and>
         lIRR (computeModel a) = uIRR (computeModel a) \<and>
         lNPV (computeModel a) = uNPV (computeModel a)"
  using no_debt [OF assms] no_debt_cashflows [OF assms]
  by (simp add: computeModel_def Let_def)

lemma deal_ltv: "ltv deal = 0" by (simp add: deal_def)

theorem zero_ltv_levered_is_unlevered_witness:
  "ltv deal = 0 \<and> leveredCF (computeModel deal) = unleveredCF (computeModel deal) \<and>
   lIRR (computeModel deal) = uIRR (computeModel deal) \<and>
   lNPV (computeModel deal) = uNPV (computeModel deal)"
  using zero_ltv_levered_is_unlevered [OF deal_ltv] deal_ltv by simp

section \<open>Properties of the sensitivity grid\<close>






lemmas year_defs = salePrice_of_def noi_at_def egr_at_def vacancyLoss_at_def recoveries_at_def
  opexAbs_at_def baseOpex_at_def revenue_at_def rentRev_at_def otherRev_at_def units_def
  baseRent1_def baseOther1_def rentG_def otherG_def vacSafe_def expG_def exitCapSafe_def
  clampNum_def capexAbs_at_def saleCosts_of_def saleNetBeforeDebt_of_def saleCostSafe_def


section \<open>Properties of the IRR solver\<close>

lemma sign_scan_None: "None \<in> set cfs \<Longrightarrow> sign_scan cfs n p = None"
  by (induction cfs arbitrary: n p) (auto split: option.splits)

lemma sign_scan_Some:
  "None \<notin> set cfs \<Longrightarrow>
   sign_scan cfs n p =
     Some (n \<or> (\<exists>c. Some c \<in> set cfs \<and> c < 0), p \<or> (\<exists>c. Some c \<in> set cfs \<and> 0 < c))"
proof (induction cfs arbitrary: n p)
  case Nil
  then show ?case by simp
next
  case (Cons x xs)
  then obtain c where x: "x = Some c" by (cases x) auto
  from Cons.prems have "None \<notin> set xs" by simp
  from Cons.IH [OF this] show ?case by (auto simp: x)
qed

text \<open>
  C4. \<open>irr\<close> returns the undefined sentinel for every cash-flow vector that lacks a
  strictly negative entry or lacks a strictly positive entry, and returns a value only
  when both are present.
\<close>

theorem irr_needs_both_signs:
  "(\<not> (\<exists>c. Some c \<in> set cfs \<and> c < 0) \<or> \<not> (\<exists>c. Some c \<in> set cfs \<and> 0 < c)
      \<longrightarrow> irr cfs = None) \<and>
   (irr cfs \<noteq> None
      \<longrightarrow> (\<exists>c. Some c \<in> set cfs \<and> c < 0) \<and> (\<exists>c. Some c \<in> set cfs \<and> 0 < c))"
proof (cases "None \<in> set cfs")
  case True
  then show ?thesis by (simp add: irr_def sign_scan_None)
next
  case False
  then show ?thesis by (auto simp: irr_def sign_scan_Some)
qed

theorem irr_needs_both_signs_witness:
  "irr [Some 100, Some 200] = None \<and> irr [Some (- 100), Some 0, Some (- 5)] = None \<and>
   irr [Some 0, Some 0] = None \<and> irr [] = None"
proof -
  have a: "\<not> (\<exists>c::real. Some c \<in> set [Some 100, Some 200] \<and> c < 0)" by auto
  have b: "\<not> (\<exists>c::real. Some c \<in> set [Some (- 100), Some 0, Some (- 5)] \<and> 0 < c)" by auto
  have c: "\<not> (\<exists>c::real. Some c \<in> set [Some 0, Some 0] \<and> 0 < c)" by auto
  have d: "\<not> (\<exists>c::real. Some c \<in> set [] \<and> 0 < c)" by auto
  show ?thesis
    using irr_needs_both_signs [of "[Some 100, Some 200]"]
      irr_needs_both_signs [of "[Some (- 100), Some 0, Some (- 5)]"]
      irr_needs_both_signs [of "[Some 0, Some 0]"]
      irr_needs_both_signs [of "[]"] a b c d
    by blast
qed

section \<open>Properties of the recommendation classifier\<close>

lemma dscr_note_tone: "note_tone (dscr_note d) = metric_tone 1.25 1.05 d"
  by (simp add: dscr_note_def metric_tone_def BENCH_dscr_def split: option.splits)

lemma coc_note_tone: "note_tone (coc_note c) = metric_tone 0.08 0.04 c"
  by (simp add: coc_note_def metric_tone_def BENCH_coc_def split: option.splits)

lemma irr_note_tone: "note_tone (irr_note i) = metric_tone 0.12 0.08 i"
  by (simp add: irr_note_def metric_tone_def BENCH_irr_def split: option.splits)

lemma length_filter_count:
  "length (filter (\<lambda>n. note_tone n = t) ns) = count_list (map note_tone ns) t"
  by (induction ns) auto

text \<open>
  C5, as amended. For every triple of metric values (DSCR, CoC, levered IRR), each tiered
  into good, warning or bad with undefined counting as bad, the headline is
  ``Likely not worth it (as modeled)'' when at least 2 of the 3 are bad,
  ``Likely worth pursuing'' when at least 2 are good and none is bad, and the borderline
  headline otherwise.
\<close>

theorem headline_rule:
  "map note_tone (rec_notes (buildRecommendation d c i))
     = [metric_tone 1.25 1.05 d, metric_tone 0.08 0.04 c, metric_tone 0.12 0.08 i] \<and>
   headline (buildRecommendation d c i)
     = spec_headline [metric_tone 1.25 1.05 d, metric_tone 0.08 0.04 c, metric_tone 0.12 0.08 i]"
proof -
  let ?ns = "[dscr_note d, coc_note c, irr_note i]"
  have ts: "map note_tone ?ns
      = [metric_tone 1.25 1.05 d, metric_tone 0.08 0.04 c, metric_tone 0.12 0.08 i]"
    by (simp add: dscr_note_tone coc_note_tone irr_note_tone)
  have n: "rec_notes (buildRecommendation d c i) = ?ns"
    by (simp add: buildRecommendation_def Let_def)
  have h: "headline (buildRecommendation d c i) = spec_headline (map note_tone ?ns)"
    unfolding buildRecommendation_def Let_def spec_headline_def length_filter_count
    by simp
  show ?thesis using ts n h by simp
qed

theorem headline_rule_witness:
  "headline (buildRecommendation None (Some 0.1) (Some 0.05)) = ''Likely not worth it (as modeled)'' \<and>
   headline (buildRecommendation (Some 1.3) (Some 0.05) (Some 0.2)) = ''Likely worth pursuing'' \<and>
   headline (buildRecommendation (Some 1.3) (Some 0.1) (Some 0.05)) = headline_borderline \<and>
   headline (buildRecommendation (Some 1.1) (Some 0.05) (Some 0.09)) = headline_borderline"
  using headline_rule [of None "Some 0.1" "Some 0.05"]
    headline_rule [of "Some 1.3" "Some 0.05" "Some 0.2"]
    headline_rule [of "Some 1.3" "Some 0.1" "Some 0.05"]
    headline_rule [of "Some 1.1" "Some 0.05" "Some 0.09"]
  by (simp add: spec_headline_def metric_tone_def)

text \<open>
  With all three metrics undefined, all three notes are bad and the headline is not the
  string ``Likely not worth it'': the source's headline carries the suffix
  ``(as modeled)''.
\<close>

theorem headline_counterexample:
  "count_list (map note_tone (rec_notes (buildRecommendation None None None))) bad = 3 \<and>
   headline (buildRecommendation None None None) \<noteq> ''Likely not worth it''"
  by (simp add: buildRecommendation_def Let_def dscr_note_def coc_note_def irr_note_def)

section \<open>Properties of the tornado engine\<close>







lemma delta_cases:
  "delta b v = (case b of None \<Rightarrow> None | Some x \<Rightarrow> (case v of None \<Rightarrow> None | Some y \<Rightarrow> Some (y - x)))"
  by (simp add: delta_def split: option.splits)









section \<open>The payoff netted against the sale proceeds\<close>

lemma leveredCF_exit:
  "0 < saleYear a \<Longrightarrow>
   leveredCF_of a ! saleYear a =
     ((noi_at a (saleYear a) - capexAbs_at a (saleYear a)) - debtPmtAnnual_of a)
     + (saleNetBeforeDebt_of a - payoff_of a)"
  by (simp add: leveredCF_of_def Let_def del: upt_Suc)

lemma deal_levered_debt:
  "loanProceeds_of deal_levered = 500000"
  "debtPmtAnnual_of deal_levered
     = 22536500602639394413224020000 / 42275010043989906887067"
  by (simp_all add: debtPmtAnnual_of_def loanProceeds_of_def clampNum_def deal_levered_def
      deal_def pmtMonthly_def Math_pow_def int_pow_def Let_def power_divide)

lemma deal_levered_fields:
  "saleYear deal_levered = 1" "interestRate deal_levered = 0.12" "amortYears deal_levered = 1"
  by (simp_all add: deal_levered_def deal_def)

lemma deal_levered_payoff:
  "payoff_of deal_levered = 1137505021994953443533500000 / 42275010043989906887067"
  by (simp add: payoff_of_def deal_levered_debt deal_levered_fields Let_def)

lemma deal_levered_payoffAtExit:
  "payoffAtExit deal_levered
     = Some (58412515065984860330600500000 / 126825030131969720661201)"
  by (simp add: payoffAtExit_def deal_levered_debt deal_levered_fields remainingBalance_def
      pmtMonthly_def Math_pow_def int_pow_def Let_def power_divide)

lemma deal_levered_full_schedule:
  "remainingBalance 500000 0.12 1 (12 * 1) = Some 0"
  by (simp add: remainingBalance_def pmtMonthly_def Math_pow_def int_pow_def Let_def power_divide)

lemma deal_levered_year:
  "noi_at deal_levered (Suc 0) = 100000"
  "capexAbs_at deal_levered (Suc 0) = 0"
  "saleNetBeforeDebt_of deal_levered = 1000000"
  by (simp_all add: year_defs deal_levered_def deal_def Let_def)

text \<open>
  C1. The claim is that the exit-year levered cash flow nets the closed-form
  \<open>remainingBalance\<close> payoff against the sale proceeds. \<open>computeModel\<close> nets the
  payoff of the year-by-year loop instead. On the levered deal the exit-year levered cash
  flow is 540,000 with the loop's payoff of about 26,907; the closed-form balance that
  \<open>computeModel\<close> computes as \<open>payoffAtExit\<close> (after \<open>N = 1\<close> payment) is about
  460,576, and the closed-form balance after the \<open>12 N\<close> payments of the hold is 0; with
  either, the claimed cash flow differs from the one computed.
\<close>

theorem levered_exit_nets_simulated_payoff:
  "N (computeModel deal_levered) = 1 \<and>
   leveredCF (computeModel deal_levered) ! 1
     = (100000 - 0) - debtPmtAnnual (computeModel deal_levered)
       + (1000000 - payoff (computeModel deal_levered)) \<and>
   leveredCF (computeModel deal_levered) ! 1 = 540000 \<and>
   payoff (computeModel deal_levered)
     = 1137505021994953443533500000 / 42275010043989906887067 \<and>
   payoffAtExit deal_levered
     = Some (58412515065984860330600500000 / 126825030131969720661201) \<and>
   remainingBalance (loanProceeds (computeModel deal_levered)) 0.12 1 (12 * 1) = Some 0 \<and>
   leveredCF (computeModel deal_levered) ! 1
     \<noteq> (100000 - 0) - debtPmtAnnual (computeModel deal_levered)
       + (1000000 - 58412515065984860330600500000 / 126825030131969720661201) \<and>
   leveredCF (computeModel deal_levered) ! 1
     \<noteq> (100000 - 0) - debtPmtAnnual (computeModel deal_levered) + (1000000 - 0)"
proof -
  have n: "0 < saleYear deal_levered" by (simp add: deal_levered_fields)
  have l: "leveredCF_of deal_levered ! 1 = 540000"
    using leveredCF_exit [OF n]
    by (simp add: deal_levered_fields deal_levered_year deal_levered_debt deal_levered_payoff)
  show ?thesis
    using l deal_levered_full_schedule
    by (simp add: computeModel_def Let_def deal_levered_fields deal_levered_year
        deal_levered_debt deal_levered_payoff deal_levered_payoffAtExit)
qed

section \<open>What the IRR solver returns\<close>














end
